theory Spec2Isabelle
  imports Main
begin

section \<open>The DevRel publisher page: Session State, gated actions and their handlers\<close>

text \<open>
  The development embeds \<^verbatim>\<open>src/app/page.tsx\<close> (component \<^verbatim>\<open>DevRelPublisher\<close>) and
  the chat state render of the second page (\<^verbatim>\<open>useCoAgentStateRender\<close>).

  Conventions of the embedding:
  \<^item> the shared document \<^verbatim>\<open>DevRelAgentState\<close> is a record; optional fields are options;
  \<^item> a value of TypeScript type \<^verbatim>\<open>any\<close> is a \<open>jsval\<close>;
  \<^item> an event handler is the list of calls it makes, in order, to the two capabilities
    it is given: \<^verbatim>\<open>setState(snapshot)\<close> and \<^verbatim>\<open>respond(value)\<close>;
  \<^item> a handler closes over the \<^verbatim>\<open>state\<close> the component was rendered from, so every
    render function takes that state as its argument and the handlers it builds
    mention only that state;
  \<^item> the hook \<^verbatim>\<open>useCoAgent\<close> returns \<^verbatim>\<open>state\<close> and \<^verbatim>\<open>setState\<close> as defined values, so the
    guards \<^verbatim>\<open>state?.\<close> and \<^verbatim>\<open>setState &&\<close> always pass; \<^verbatim>\<open>respond\<close> may be undefined and is
    a flag of the render props;
  \<^item> class names and layout are left out: an element keeps its text, its value, its
    \<^verbatim>\<open>disabled\<close> attribute and its handler.
\<close>

subsection \<open>Data model\<close>

datatype jsval = JNull | JBool bool | JNum int | JStr string

record Topic =
  topic_title :: string
  topic_description :: string
  source_type :: string
  source_id :: string
  content_types :: "string list"

record ContentDrafts =
  blog_post :: string
  code_example :: string
  social_media :: string

record ContentRecord =
  channel :: string
  title :: string
  summary :: string
  content :: string
  type :: string

record CopilotKit =
  actions :: "jsval list option"
  metadata :: "(string \<rightharpoonup> jsval) option"

record DevRelAgentState =
  repo_url :: string
  start_date :: string
  topics :: "Topic list"
  selected_topic :: "Topic option"
  content_drafts :: ContentDrafts
  content_record :: ContentRecord
  status :: "string option"
  error :: "string option"
  copilotkit :: "CopilotKit option"
  messages :: "jsval list option"

text \<open>The \<^verbatim>\<open>initialState\<close> passed to \<^verbatim>\<open>useCoAgent\<close>: the optional fields are absent.\<close>

definition initialState :: DevRelAgentState where
  "initialState =
     \<lparr> repo_url = '''', start_date = '''', topics = [], selected_topic = None,
       content_drafts = \<lparr> blog_post = '''', code_example = '''', social_media = '''' \<rparr>,
       content_record = \<lparr> channel = '''', title = '''', summary = '''', content = '''', type = '''' \<rparr>,
       status = None, error = None, copilotkit = None, messages = None \<rparr>"

subsection \<open>Handlers, elements and events\<close>

datatype effect = SetState DevRelAgentState | Respond jsval

text \<open>
  The props a \<^verbatim>\<open>renderAndWaitForResponse\<close> function receives. \<^verbatim>\<open>args\<close> is never read by
  the four renders; \<open>respond\<close> tells whether the \<^verbatim>\<open>respond\<close> callback is defined.
\<close>

record ActionRenderProps =
  gate_status :: string
  respond :: bool

datatype element =
    Static string
  | Input string string "string \<Rightarrow> effect list"
  | Textarea string "string \<Rightarrow> effect list"
  | Select string "string list" "string \<Rightarrow> effect list"
  | Button string bool "effect list"
  | Div "string list" "effect list"

datatype event = Click | Change string

text \<open>
  What the browser does with a human event: a disabled button drops the click, a
  \<^verbatim>\<open>select\<close> reports only the value of one of its options, a text field reports any
  string, an element without the matching handler does nothing.
\<close>

fun fire :: "element \<Rightarrow> event \<Rightarrow> effect list" where
  "fire (Input t v onChange) (Change x) = onChange x"
| "fire (Textarea v onChange) (Change x) = onChange x"
| "fire (Select v opts onChange) (Change x) = (if x \<in> set opts then onChange x else [])"
| "fire (Button l disabled onClick) Click = (if disabled then [] else onClick)"
| "fire (Div children onClick) Click = onClick"
| "fire e ev = []"

text \<open>\<^verbatim>\<open>a || b\<close> on strings: the empty string is falsy.\<close>

definition or_str :: "string \<Rightarrow> string \<Rightarrow> string" where
  "or_str a b = (if a = [] then b else a)"

text \<open>\<^verbatim>\<open>respond && respond(v)\<close>\<close>

definition respond_with :: "ActionRenderProps \<Rightarrow> jsval \<Rightarrow> effect list" where
  "respond_with props v = (if respond props then [Respond v] else [])"

text \<open>\<^verbatim>\<open>xs.join(sep)\<close>\<close>

fun join :: "string \<Rightarrow> string list \<Rightarrow> string" where
  "join sep [] = []"
| "join sep [x] = x"
| "join sep (x # y # ys) = x @ sep @ join sep (y # ys)"

subsection \<open>The four renders\<close>

definition set_github_repo_render :: "ActionRenderProps \<Rightarrow> DevRelAgentState \<Rightarrow> element list" where
  "set_github_repo_render props state =
     [ Static ''Enter GitHub Repository'',
       Input ''text'' (or_str (repo_url state) '''')
         (\<lambda>v. [SetState (state\<lparr>repo_url := v\<rparr>)]),
       Button ''Submit'' (gate_status props \<noteq> ''executing'')
         (respond_with props (JStr (repo_url state))) ]"

definition set_date_range_render :: "ActionRenderProps \<Rightarrow> DevRelAgentState \<Rightarrow> element list" where
  "set_date_range_render props state =
     [ Static ''Select Analysis Start Date'',
       Static (''We'' @ [CHR 0x27] @ ''ll analyze repository changes after this date''),
       Input ''date'' (or_str (start_date state) '''')
         (\<lambda>v. [SetState (state\<lparr>start_date := v\<rparr>)]),
       Button ''Submit'' (gate_status props \<noteq> ''executing'')
         (respond_with props (JStr (start_date state))) ]"

text \<open>One card per topic, in list order; the handler of card \<open>idx\<close> closes over its topic.\<close>

definition topic_card :: "ActionRenderProps \<Rightarrow> DevRelAgentState \<Rightarrow> nat \<times> Topic \<Rightarrow> element" where
  "topic_card props state = (\<lambda>(idx, topic).
     Div [ topic_title topic, topic_description topic,
           ''Source: '' @ source_type topic,
           ''Content types: '' @ join '', '' (content_types topic) ]
         (SetState (state\<lparr>selected_topic := Some topic\<rparr>) # respond_with props (JNum (int idx))))"

definition select_topic_render :: "ActionRenderProps \<Rightarrow> DevRelAgentState \<Rightarrow> element list" where
  "select_topic_render props state =
     [ Static ''Select Content Topic'',
       Static ''Choose a topic to generate content for'' ]
     @ map (topic_card props state) (enumerate 0 (topics state))
     @ (if length (topics state) = 0
        then [Static ''No topics generated yet. Please wait...''] else [])"

text \<open>
  The object the Save and Publish button builds for \<^verbatim>\<open>copilotkit\<close>:
  \<^verbatim>\<open>{ ...state.copilotkit, metadata: { ...(state.copilotkit?.metadata || {}), confirmed: true } }\<close>
\<close>

definition confirmed_copilotkit :: "CopilotKit option \<Rightarrow> CopilotKit" where
  "confirmed_copilotkit ck =
     \<lparr> actions = (case ck of None \<Rightarrow> None | Some c \<Rightarrow> actions c),
       metadata = Some ((case (case ck of None \<Rightarrow> None | Some c \<Rightarrow> metadata c) of
                           None \<Rightarrow> Map.empty | Some m \<Rightarrow> m)
                        (''confirmed'' \<mapsto> JBool True)) \<rparr>"

definition confirm_content_render :: "ActionRenderProps \<Rightarrow> DevRelAgentState \<Rightarrow> element list" where
  "confirm_content_render props state =
     [ Static ''Edit & Publish Content'',
       Static ''Channel'',
       Select (or_str (channel (content_record state)) '''')
         ['''', ''blog'', ''twitter'', ''linkedin'', ''github'']
         (\<lambda>v. [SetState (state\<lparr>content_record := (content_record state)\<lparr>channel := v\<rparr>\<rparr>)]),
       Static ''Title'',
       Input ''text'' (or_str (title (content_record state)) '''')
         (\<lambda>v. [SetState (state\<lparr>content_record := (content_record state)\<lparr>title := v\<rparr>\<rparr>)]),
       Static ''Summary'',
       Textarea (or_str (summary (content_record state)) '''')
         (\<lambda>v. [SetState (state\<lparr>content_record := (content_record state)\<lparr>summary := v\<rparr>\<rparr>)]),
       Static ''Content'',
       Textarea (or_str (content (content_record state)) '''')
         (\<lambda>v. [SetState (state\<lparr>content_record := (content_record state)\<lparr>content := v\<rparr>\<rparr>)]),
       Static ''Type'',
       Select (or_str (type (content_record state)) '''')
         ['''', ''blog_post'', ''code_example'', ''social_media'']
         (\<lambda>v. [SetState (state\<lparr>content_record := (content_record state)\<lparr>type := v\<rparr>\<rparr>)]),
       Button ''Edit More'' (gate_status props \<noteq> ''executing'')
         (respond_with props (JStr ''CANCEL'')),
       Button ''Save & Publish'' (gate_status props \<noteq> ''executing'')
         (SetState (state\<lparr>copilotkit := Some (confirmed_copilotkit (copilotkit state))\<rparr>)
          # respond_with props (JStr ''CONFIRM'')) ]"

subsection \<open>The action registry of the component\<close>

datatype parameter =
  Parameter (param_name: string) (param_type: string) (param_description: string) (required: bool)

datatype action =
  Action (action_name: string) (action_description: string) (parameters: "parameter list")
    (renderAndWaitForResponse: "ActionRenderProps \<Rightarrow> DevRelAgentState \<Rightarrow> element list")

text \<open>The \<^verbatim>\<open>useCopilotAction\<close> calls of \<^verbatim>\<open>DevRelPublisher\<close>, in the order they are made.\<close>

definition DevRelPublisher_actions :: "action list" where
  "DevRelPublisher_actions =
     [ Action ''set_github_repo'' ''Set the GitHub repository URL for analysis''
         [Parameter ''repo_url'' ''string'' ''GitHub repository URL'' True]
         set_github_repo_render,
       Action ''set_date_range'' ''Set the start date for repository analysis''
         [Parameter ''start_date'' ''string'' ''Start date in YYYY-MM-DD format'' True]
         set_date_range_render,
       Action ''select_topic'' ''Select a topic for content generation''
         [Parameter ''topic_index'' ''number'' ''Index of selected topic'' True]
         select_topic_render,
       Action ''confirm_content'' ''Confirm edited content is ready to save''
         []
         confirm_content_render ]"

subsection \<open>Running handlers against the shared document\<close>

text \<open>
  \<^verbatim>\<open>setState(snapshot)\<close> replaces the whole document; \<^verbatim>\<open>respond(value)\<close> leaves it alone.
  \<open>run_effects\<close> gives the document after the calls, \<open>responses\<close> the values handed to
  \<^verbatim>\<open>respond\<close>.
\<close>

fun run_effects :: "DevRelAgentState \<Rightarrow> effect list \<Rightarrow> DevRelAgentState" where
  "run_effects s [] = s"
| "run_effects s (SetState s' # es) = run_effects s' es"
| "run_effects s (Respond v # es) = run_effects s es"

fun responses :: "effect list \<Rightarrow> jsval list" where
  "responses [] = []"
| "responses (SetState s' # es) = responses es"
| "responses (Respond v # es) = v # responses es"

text \<open>
  One human event: on which gate (its place in the registry), with which props the gate
  is rendered, on which element of the render, and the event. The gate is rendered from
  the current document; a gate or an element that does not exist changes nothing.
\<close>

record human_event =
  on_gate :: nat
  with_props :: ActionRenderProps
  on_elem :: nat
  event_of :: event

definition event_effects :: "DevRelAgentState \<Rightarrow> human_event \<Rightarrow> effect list" where
  "event_effects s h =
     (if on_gate h < length DevRelPublisher_actions
      then (let els = renderAndWaitForResponse (DevRelPublisher_actions ! on_gate h) (with_props h) s
            in if on_elem h < length els then fire (els ! on_elem h) (event_of h) else [])
      else [])"

definition human_step :: "DevRelAgentState \<Rightarrow> human_event \<Rightarrow> DevRelAgentState" where
  "human_step s h = run_effects s (event_effects s h)"

definition human_run :: "DevRelAgentState \<Rightarrow> human_event list \<Rightarrow> DevRelAgentState" where
  "human_run s hs = foldl human_step s hs"

subsection \<open>Status and error display\<close>

text \<open>Truthiness of an optional string: defined and not empty.\<close>

fun truthy :: "string option \<Rightarrow> bool" where
  "truthy None = False"
| "truthy (Some x) = (x \<noteq> [])"

datatype view = StatusView string | ErrorView string | ContentView ContentRecord

text \<open>\<^verbatim>\<open>renderStatus\<close> of \<^verbatim>\<open>DevRelPublisher\<close>; \<open>None\<close> is the \<^verbatim>\<open>null\<close> it returns.\<close>

definition renderStatus :: "DevRelAgentState \<Rightarrow> view option" where
  "renderStatus state =
     (if truthy (status state) then Some (StatusView (the (status state)))
      else if truthy (error state) then Some (ErrorView (''Error: '' @ the (error state)))
      else None)"

text \<open>The state type of the second page and the render given to \<^verbatim>\<open>useCoAgentStateRender\<close>.\<close>

record AgentState =
  agent_content_record :: "ContentRecord option"
  agent_status :: "string option"
  agent_error :: "string option"

definition coagent_state_render :: "AgentState \<Rightarrow> view list" where
  "coagent_state_render state =
     (if truthy (agent_status state) then [StatusView (the (agent_status state))] else [])
     @ (if truthy (agent_error state) then [ErrorView (the (agent_error state))] else [])
     @ (case agent_content_record state of None \<Rightarrow> [] | Some cr \<Rightarrow> [ContentView cr])"

subsection \<open>The confirmation flag and the sequencer\<close>

text \<open>\<^verbatim>\<open>state.copilotkit?.metadata?.[k]\<close> and \<^verbatim>\<open>state.copilotkit?.actions\<close>\<close>

definition metadata_at :: "DevRelAgentState \<Rightarrow> string \<Rightarrow> jsval option" where
  "metadata_at s k =
     (case copilotkit s of
        None \<Rightarrow> None
      | Some ck \<Rightarrow> (case metadata ck of None \<Rightarrow> None | Some m \<Rightarrow> m k))"

definition actions_of :: "DevRelAgentState \<Rightarrow> jsval list option" where
  "actions_of s = (case copilotkit s of None \<Rightarrow> None | Some ck \<Rightarrow> actions ck)"

text \<open>The confirmation flag of the session: \<^verbatim>\<open>copilotkit.metadata.confirmed\<close> is \<^verbatim>\<open>true\<close>.\<close>

definition confirmationFlag :: "DevRelAgentState \<Rightarrow> bool" where
  "confirmationFlag s = (metadata_at s ''confirmed'' = Some (JBool True))"

text \<open>
  Modelled from the spec: the agent-side Workflow Sequencer, which decides the stage that
  follows a resolved gate. It lives in the \<^verbatim>\<open>agent/\<close> package of the repository, which
  is not among the sources. Section 4.4 of the specification: the pipeline is the four
  gated actions in their fixed order; a gate that resolves is followed by the next stage,
  except that \<^verbatim>\<open>"CANCEL"\<close> at \<^verbatim>\<open>confirm_content\<close> re-enters the same gate. A stage is
  the place of its action in the registry; 4 is the end of the pipeline.
\<close>

definition sequencer_resolve :: "nat \<Rightarrow> jsval \<Rightarrow> nat" where
  "sequencer_resolve stage v =
     (if stage < length DevRelPublisher_actions
         \<and> action_name (DevRelPublisher_actions ! stage) = ''confirm_content''
         \<and> v = JStr ''CANCEL''
      then stage else Suc stage)"

subsection \<open>Concrete inputs\<close>

definition executing_props :: ActionRenderProps where
  "executing_props = \<lparr> gate_status = ''executing'', respond = True \<rparr>"

definition complete_props :: ActionRenderProps where
  "complete_props = \<lparr> gate_status = ''complete'', respond = False \<rparr>"

definition topic_T0 :: Topic where
  "topic_T0 = \<lparr> topic_title = ''Faster sync'', topic_description = ''Commit speeds up sync'',
                source_type = ''commit'', source_id = ''abc123'', content_types = [''blog_post''] \<rparr>"

definition topic_T1 :: Topic where
  "topic_T1 = \<lparr> topic_title = ''New CLI flag'', topic_description = ''PR adds a flag'',
                source_type = ''pr'', source_id = ''42'',
                content_types = [''code_example'', ''social_media''] \<rparr>"

text \<open>Two topics on offer, none selected.\<close>

definition two_topics_state :: DevRelAgentState where
  "two_topics_state = initialState\<lparr>topics := [topic_T0, topic_T1]\<rparr>"

text \<open>The same session after the topics were regenerated to a single one.\<close>

definition one_topic_state :: DevRelAgentState where
  "one_topic_state = initialState\<lparr>topics := [topic_T0]\<rparr>"

text \<open>Two topics on offer, the first one already selected.\<close>

definition selected_T0_state :: DevRelAgentState where
  "selected_T0_state = initialState\<lparr>topics := [topic_T0, topic_T1], selected_topic := Some topic_T0\<rparr>"

text \<open>Both side-band fields set.\<close>

definition status_and_error_state :: DevRelAgentState where
  "status_and_error_state =
     initialState\<lparr>status := Some ''Analyzing repository'', error := Some ''GitHub fetch failed''\<rparr>"

definition status_and_error_agent_state :: AgentState where
  "status_and_error_agent_state =
     \<lparr> agent_content_record = None, agent_status = Some ''Analyzing repository'',
       agent_error = Some ''GitHub fetch failed'' \<rparr>"

text \<open>
  A session at the content form: the human picks a channel and a type, types a title, and
  then tries a channel the form does not offer.
\<close>

definition form_edits :: "human_event list" where
  "form_edits =
     [ \<lparr> on_gate = 3, with_props = executing_props, on_elem = 2, event_of = Change ''twitter'' \<rparr>,
       \<lparr> on_gate = 3, with_props = executing_props, on_elem = 10, event_of = Change ''social_media'' \<rparr>,
       \<lparr> on_gate = 3, with_props = executing_props, on_elem = 4, event_of = Change ''Release notes'' \<rparr>,
       \<lparr> on_gate = 3, with_props = executing_props, on_elem = 2, event_of = Change ''mastodon'' \<rparr> ]"

text \<open>
  A session with no topics yet: the human clicks the waiting message, types a repository
  URL into the first gate, and clicks the heading of the topic gate.
\<close>

definition waiting_events :: "human_event list" where
  "waiting_events =
     [ \<lparr> on_gate = 2, with_props = executing_props, on_elem = 2, event_of = Click \<rparr>,
       \<lparr> on_gate = 0, with_props = executing_props, on_elem = 1,
         event_of = Change ''https://github.com/acme/widget'' \<rparr>,
       \<lparr> on_gate = 2, with_props = executing_props, on_elem = 0, event_of = Click \<rparr> ]"

text \<open>
  A session at the confirmation gate: a drafted content record, one registered action
  and one metadata key in \<^verbatim>\<open>copilotkit\<close>, no confirmation yet.
\<close>

definition drafted_state :: DevRelAgentState where
  "drafted_state =
     initialState
       \<lparr> repo_url := ''https://github.com/acme/widget'',
         content_record :=
           \<lparr> channel = ''blog'', title = ''Draft'', summary = ''What changed'',
             content = ''Body'', type = ''blog_post'' \<rparr>,
         copilotkit :=
           Some \<lparr> actions = Some [JStr ''confirm_content''],
                  metadata = Some [''thread'' \<mapsto> JStr ''t-1''] \<rparr> \<rparr>"

text \<open>The same session after the title of the record was changed.\<close>

definition retitled_state :: DevRelAgentState where
  "retitled_state =
     drafted_state\<lparr>content_record := (content_record drafted_state)\<lparr>title := ''Release notes''\<rparr>\<rparr>"

section \<open>What the handlers of a render can do\<close>

lemma run_effects_cases:
  "run_effects s es = s \<or> (\<exists>s'. SetState s' \<in> set es \<and> run_effects s es = s')"
  by (induction s es rule: run_effects.induct) auto

lemma set_github_repo_effects:
  assumes "e \<in> set (set_github_repo_render p s)" and "SetState s' \<in> set (fire e ev)"
  shows "\<exists>v. s' = s\<lparr>repo_url := v\<rparr>"
  using assms by (cases ev) (auto simp: set_github_repo_render_def respond_with_def split: if_splits)

lemma set_date_range_effects:
  assumes "e \<in> set (set_date_range_render p s)" and "SetState s' \<in> set (fire e ev)"
  shows "\<exists>v. s' = s\<lparr>start_date := v\<rparr>"
  using assms by (cases ev) (auto simp: set_date_range_render_def respond_with_def split: if_splits)

lemma select_topic_elements:
  assumes "e \<in> set (select_topic_render p s)"
  shows "(\<exists>t. e = Static t) \<or> (\<exists>i<length (topics s). e = topic_card p s (i, topics s ! i))"
  using assms by (auto simp: select_topic_render_def in_set_enumerate_eq split: if_splits)

lemma select_topic_effects:
  assumes "e \<in> set (select_topic_render p s)" and "SetState s' \<in> set (fire e ev)"
  shows "\<exists>i<length (topics s). s' = s\<lparr>selected_topic := Some (topics s ! i)\<rparr>"
  using select_topic_elements[OF assms(1)] assms(2)
  by (cases ev) (auto simp: topic_card_def respond_with_def split: if_splits)

lemma confirm_content_effects:
  assumes "e \<in> set (confirm_content_render p s)" and "SetState s' \<in> set (fire e ev)"
  shows "(\<exists>v \<in> set ['''', ''blog'', ''twitter'', ''linkedin'', ''github''].
            s' = s\<lparr>content_record := (content_record s)\<lparr>channel := v\<rparr>\<rparr>)
       \<or> (\<exists>v. s' = s\<lparr>content_record := (content_record s)\<lparr>title := v\<rparr>\<rparr>)
       \<or> (\<exists>v. s' = s\<lparr>content_record := (content_record s)\<lparr>summary := v\<rparr>\<rparr>)
       \<or> (\<exists>v. s' = s\<lparr>content_record := (content_record s)\<lparr>content := v\<rparr>\<rparr>)
       \<or> (\<exists>v \<in> set ['''', ''blog_post'', ''code_example'', ''social_media''].
            s' = s\<lparr>content_record := (content_record s)\<lparr>type := v\<rparr>\<rparr>)
       \<or> s' = s\<lparr>copilotkit := Some (confirmed_copilotkit (copilotkit s))\<rparr>"
  using assms by (cases ev) (auto simp: confirm_content_render_def respond_with_def split: if_splits)

lemma event_effects_elements:
  assumes "x \<in> set (event_effects s h)"
  shows "\<exists>a \<in> set DevRelPublisher_actions.
           \<exists>e \<in> set (renderAndWaitForResponse a (with_props h) s). x \<in> set (fire e (event_of h))"
proof -
  from assms have g: "on_gate h < length DevRelPublisher_actions"
    by (auto simp: event_effects_def split: if_splits)
  let ?a = "DevRelPublisher_actions ! on_gate h"
  let ?els = "renderAndWaitForResponse ?a (with_props h) s"
  from assms g have i: "on_elem h < length ?els" and x: "x \<in> set (fire (?els ! on_elem h) (event_of h))"
    by (auto simp: event_effects_def Let_def split: if_splits)
  from g have "?a \<in> set DevRelPublisher_actions" by (rule nth_mem)
  moreover from i have "?els ! on_elem h \<in> set ?els" by (rule nth_mem)
  ultimately show ?thesis using x by blast
qed

lemma event_effects_cases:
  assumes "SetState s' \<in> set (event_effects s h)"
  shows "(\<exists>v. s' = s\<lparr>repo_url := v\<rparr>)
       \<or> (\<exists>v. s' = s\<lparr>start_date := v\<rparr>)
       \<or> (\<exists>i<length (topics s). s' = s\<lparr>selected_topic := Some (topics s ! i)\<rparr>)
       \<or> (\<exists>v \<in> set ['''', ''blog'', ''twitter'', ''linkedin'', ''github''].
            s' = s\<lparr>content_record := (content_record s)\<lparr>channel := v\<rparr>\<rparr>)
       \<or> (\<exists>v. s' = s\<lparr>content_record := (content_record s)\<lparr>title := v\<rparr>\<rparr>)
       \<or> (\<exists>v. s' = s\<lparr>content_record := (content_record s)\<lparr>summary := v\<rparr>\<rparr>)
       \<or> (\<exists>v. s' = s\<lparr>content_record := (content_record s)\<lparr>content := v\<rparr>\<rparr>)
       \<or> (\<exists>v \<in> set ['''', ''blog_post'', ''code_example'', ''social_media''].
            s' = s\<lparr>content_record := (content_record s)\<lparr>type := v\<rparr>\<rparr>)
       \<or> s' = s\<lparr>copilotkit := Some (confirmed_copilotkit (copilotkit s))\<rparr>"
proof -
  from event_effects_elements[OF assms] obtain a e
    where a: "a \<in> set DevRelPublisher_actions"
      and e: "e \<in> set (renderAndWaitForResponse a (with_props h) s)"
      and x: "SetState s' \<in> set (fire e (event_of h))" by blast
  from a consider
      "renderAndWaitForResponse a = set_github_repo_render"
    | "renderAndWaitForResponse a = set_date_range_render"
    | "renderAndWaitForResponse a = select_topic_render"
    | "renderAndWaitForResponse a = confirm_content_render"
    by (auto simp: DevRelPublisher_actions_def)
  then show ?thesis
  proof cases
    case 1 with e x show ?thesis using set_github_repo_effects by metis
  next
    case 2 with e x show ?thesis using set_date_range_effects by metis
  next
    case 3 with e x show ?thesis using select_topic_effects by metis
  next
    case 4 with e x confirm_content_effects[of e "with_props h" s s' "event_of h"]
    show ?thesis by simp
  qed
qed

lemma human_step_cases:
  "human_step s h = s \<or> SetState (human_step s h) \<in> set (event_effects s h)"
  using run_effects_cases[of s "event_effects s h"] by (auto simp: human_step_def)

lemma human_run_Cons: "human_run s (h # hs) = human_run (human_step s h) hs"
  by (simp add: human_run_def)

lemma human_run_Nil: "human_run s [] = s"
  by (simp add: human_run_def)

lemma select_topic_render_nth:
  assumes "i < length (topics s)"
  shows "select_topic_render p s ! (2 + i) = topic_card p s (i, topics s ! i)"
  using assms by (simp add: select_topic_render_def nth_append nth_enumerate_eq)

lemma responses_respond_with:
  "responses (respond_with p v) = (if respond p then [v] else [])"
  by (simp add: respond_with_def)

lemma sibling_gates_drop_clicks_unless_executing:
  assumes "gate_status p \<noteq> ''executing''"
    and "e \<in> set (set_github_repo_render p s) \<union> set (set_date_range_render p s)
             \<union> set (confirm_content_render p s)"
  shows "fire e Click = []"
  using assms
  by (auto simp: set_github_repo_render_def set_date_range_render_def confirm_content_render_def)

lemma confirm_content_responses:
  assumes "e \<in> set (confirm_content_render p s)"
  shows "set (responses (fire e ev)) \<subseteq> {JStr ''CONFIRM'', JStr ''CANCEL''}"
  using assms
  by (cases ev) (auto simp: confirm_content_render_def respond_with_def split: if_splits)

lemma metadata_at_confirmed:
  "metadata_at (s\<lparr>copilotkit := Some (confirmed_copilotkit (copilotkit s))\<rparr>) k
     = (if k = ''confirmed'' then Some (JBool True) else metadata_at s k)"
  by (simp add: metadata_at_def confirmed_copilotkit_def split: option.splits)

lemma actions_of_confirmed:
  "actions_of (s\<lparr>copilotkit := Some (confirmed_copilotkit (copilotkit s))\<rparr>) = actions_of s"
  by (simp add: actions_of_def confirmed_copilotkit_def split: option.splits)

lemma save_and_publish_click:
  "fire (confirm_content_render p s ! 12) Click
     = (if gate_status p \<noteq> ''executing'' then []
        else SetState (s\<lparr>copilotkit := Some (confirmed_copilotkit (copilotkit s))\<rparr>)
             # respond_with p (JStr ''CONFIRM''))"
  by (simp add: confirm_content_render_def)

lemma edit_more_click:
  "fire (confirm_content_render p s ! 11) Click
     = (if gate_status p \<noteq> ''executing'' then [] else respond_with p (JStr ''CANCEL''))"
  by (simp add: confirm_content_render_def)

lemma run_effects_respond_with: "run_effects c (respond_with p v) = c"
  by (simp add: respond_with_def)

lemma human_step_keeps_closed:
  assumes "channel (content_record s) \<in> set ['''', ''blog'', ''twitter'', ''linkedin'', ''github'']"
    and "type (content_record s) \<in> set ['''', ''blog_post'', ''code_example'', ''social_media'']"
  shows "channel (content_record (human_step s h))
           \<in> set ['''', ''blog'', ''twitter'', ''linkedin'', ''github'']
       \<and> type (content_record (human_step s h))
           \<in> set ['''', ''blog_post'', ''code_example'', ''social_media'']"
proof -
  from human_step_cases[of s h] show ?thesis
  proof
    assume "human_step s h = s"
    with assms show ?thesis by simp
  next
    assume "SetState (human_step s h) \<in> set (event_effects s h)"
    from event_effects_cases[OF this] assms show ?thesis
      by (elim disjE exE bexE conjE) simp_all
  qed
qed

lemma human_step_without_topics:
  assumes "topics s = []"
  shows "topics (human_step s h) = [] \<and> selected_topic (human_step s h) = selected_topic s"
proof -
  from human_step_cases[of s h] show ?thesis
  proof
    assume "human_step s h = s"
    with assms show ?thesis by simp
  next
    assume "SetState (human_step s h) \<in> set (event_effects s h)"
    from event_effects_cases[OF this] assms show ?thesis
      by (elim disjE exE bexE conjE) simp_all
  qed
qed

lemma form_edits_run:
  "content_record (human_run initialState form_edits)
     = \<lparr> channel = ''twitter'', title = ''Release notes'', summary = '''', content = '''',
         type = ''social_media'' \<rparr>"
  by (simp add: human_run_def human_step_def event_effects_def DevRelPublisher_actions_def
        confirm_content_render_def form_edits_def initialState_def)

section \<open>The claims\<close>

subsection \<open>C1: selecting a topic\<close>

text \<open>
  C1, as the code has it. A click on the card of topic \<open>i\<close> of the rendered list
  (\<open>i\<close> below the number of topics the gate was rendered from) submits the rendered
  state with \<^verbatim>\<open>selected_topic\<close> replaced by that state's \<open>i\<close>-th topic, so that
  whatever the document held, its selected topic is then that topic, and responds with
  \<open>i\<close> when \<^verbatim>\<open>respond\<close> is defined. No element of the render ever responds with
  anything but the index of a rendered topic: the client validates nothing and has no
  error to raise.
\<close>

theorem select_topic_click_selects_rendered_topic:
  assumes "i < length (topics s)"
  shows "fire (select_topic_render p s ! (2 + i)) Click
           = SetState (s\<lparr>selected_topic := Some (topics s ! i)\<rparr>)
             # (if respond p then [Respond (JNum (int i))] else [])
       \<and> selected_topic (run_effects c (fire (select_topic_render p s ! (2 + i)) Click))
           = Some (topics s ! i)
       \<and> (\<forall>e \<in> set (select_topic_render p s). \<forall>ev. \<forall>v \<in> set (responses (fire e ev)).
            \<exists>j<length (topics s). v = JNum (int j))"
proof -
  have click: "fire (select_topic_render p s ! (2 + i)) Click
           = SetState (s\<lparr>selected_topic := Some (topics s ! i)\<rparr>)
             # (if respond p then [Respond (JNum (int i))] else [])"
    unfolding select_topic_render_nth[OF assms] by (simp add: topic_card_def respond_with_def)
  have sel: "selected_topic (run_effects c (fire (select_topic_render p s ! (2 + i)) Click))
           = Some (topics s ! i)"
    unfolding click by simp
  have resp: "\<exists>j<length (topics s). v = JNum (int j)"
    if e: "e \<in> set (select_topic_render p s)" and v: "v \<in> set (responses (fire e ev))" for e ev v
    using select_topic_elements[OF e] v
    by (cases ev) (auto simp: topic_card_def respond_with_def split: if_splits)
  from click sel resp show ?thesis by blast
qed

theorem select_topic_click_selects_rendered_topic_witness:
  "(1::nat) < length (topics two_topics_state)
   \<and> fire (select_topic_render executing_props two_topics_state ! 3) Click
       = [SetState (two_topics_state\<lparr>selected_topic := Some topic_T1\<rparr>), Respond (JNum 1)]
   \<and> selected_topic (run_effects two_topics_state
        (fire (select_topic_render executing_props two_topics_state ! 3) Click)) = Some topic_T1"
  using select_topic_click_selects_rendered_topic
          [of 1 two_topics_state executing_props two_topics_state]
  by (simp add: two_topics_state_def executing_props_def)

text \<open>
  C1, as the specification states it, fails. The card of topic 1 is rendered while two
  topics are on offer; the topics are regenerated and the document holds a single topic
  and no selection; the click then responds with index 1, outside the current list, and
  the document's selected topic changes from none to the stale topic. Nothing fails.
\<close>

theorem select_topic_stale_index_counterexample:
  "responses (fire (select_topic_render executing_props two_topics_state ! 3) Click) = [JNum 1]
   \<and> length (topics one_topic_state) = 1
   \<and> selected_topic one_topic_state = None
   \<and> selected_topic (run_effects one_topic_state
        (fire (select_topic_render executing_props two_topics_state ! 3) Click)) = Some topic_T1"
  by (simp add: select_topic_render_def topic_card_def respond_with_def executing_props_def
        two_topics_state_def one_topic_state_def initialState_def enumerate_eq_zip)

subsection \<open>C2: a click on a gate that is no longer executing\<close>

text \<open>
  C2 says that a click on a gate whose status is no longer \<^verbatim>\<open>executing\<close> changes no
  field of the document. The buttons of the three other gates are disabled then
  (\<open>sibling_gates_drop_clicks_unless_executing\<close>), but the topic cards are not: on a
  \<^verbatim>\<open>select_topic\<close> gate with status \<^verbatim>\<open>complete\<close> and no \<^verbatim>\<open>respond\<close>, rendered with the
  first of two topics selected, a click on the second card makes the second topic the
  selected one.
\<close>

theorem select_topic_click_after_resolution:
  "gate_status complete_props \<noteq> ''executing''
   \<and> selected_topic selected_T0_state = Some topic_T0
   \<and> selected_topic (human_step selected_T0_state
        \<lparr> on_gate = 2, with_props = complete_props, on_elem = 3, event_of = Click \<rparr>)
       = Some topic_T1
   \<and> topic_T1 \<noteq> topic_T0"
  by (simp add: human_step_def event_effects_def DevRelPublisher_actions_def
        select_topic_render_def topic_card_def respond_with_def complete_props_def
        selected_T0_state_def initialState_def enumerate_eq_zip topic_T0_def topic_T1_def)

subsection \<open>C3: status and error display\<close>

text \<open>
  C3, as the code has it. In \<^verbatim>\<open>renderStatus\<close> the status comes first: a non-empty status
  is what is shown, whatever the error; the error (prefixed with \<^verbatim>\<open>Error: \<close>) is shown
  exactly when the status is absent or empty and the error is not; otherwise nothing is
  shown. In the chat state render the two are independent: the status is shown when it
  is non-empty and the error is shown when it is non-empty.
\<close>

theorem renderStatus_status_before_error:
  "(status s = Some x \<and> x \<noteq> [] \<longrightarrow> renderStatus s = Some (StatusView x))
   \<and> (\<not> truthy (status s) \<and> error s = Some y \<and> y \<noteq> []
        \<longrightarrow> renderStatus s = Some (ErrorView (''Error: '' @ y)))
   \<and> (\<not> truthy (status s) \<and> \<not> truthy (error s) \<longrightarrow> renderStatus s = None)
   \<and> (StatusView x \<in> set (coagent_state_render a) \<longleftrightarrow> agent_status a = Some x \<and> x \<noteq> [])
   \<and> (ErrorView y \<in> set (coagent_state_render a) \<longleftrightarrow> agent_error a = Some y \<and> y \<noteq> [])"
proof -
  have st: "truthy u \<longleftrightarrow> (\<exists>z. u = Some z \<and> z \<noteq> [])" for u
    by (cases u) auto
  have page: "(status s = Some x \<and> x \<noteq> [] \<longrightarrow> renderStatus s = Some (StatusView x))
   \<and> (\<not> truthy (status s) \<and> error s = Some y \<and> y \<noteq> []
        \<longrightarrow> renderStatus s = Some (ErrorView (''Error: '' @ y)))
   \<and> (\<not> truthy (status s) \<and> \<not> truthy (error s) \<longrightarrow> renderStatus s = None)"
    by (auto simp: renderStatus_def)
  have chat_status: "StatusView x \<in> set (coagent_state_render a) \<longleftrightarrow> agent_status a = Some x \<and> x \<noteq> []"
    by (cases "agent_status a") (auto simp: coagent_state_render_def split: option.splits)
  have chat_error: "ErrorView y \<in> set (coagent_state_render a) \<longleftrightarrow> agent_error a = Some y \<and> y \<noteq> []"
    by (cases "agent_error a") (auto simp: coagent_state_render_def split: option.splits)
  from page chat_status chat_error show ?thesis by blast
qed

theorem renderStatus_status_before_error_witness:
  "renderStatus status_and_error_state = Some (StatusView ''Analyzing repository'')
   \<and> renderStatus (initialState\<lparr>error := Some ''GitHub fetch failed''\<rparr>)
       = Some (ErrorView ''Error: GitHub fetch failed'')
   \<and> renderStatus initialState = None
   \<and> StatusView ''Analyzing repository'' \<in> set (coagent_state_render status_and_error_agent_state)
   \<and> ErrorView ''GitHub fetch failed'' \<in> set (coagent_state_render status_and_error_agent_state)"
  using renderStatus_status_before_error
          [of status_and_error_state "''Analyzing repository''" "''GitHub fetch failed''"
              status_and_error_agent_state]
        renderStatus_status_before_error
          [of "initialState\<lparr>error := Some ''GitHub fetch failed''\<rparr>" "''x''" "''GitHub fetch failed''"
              status_and_error_agent_state]
        renderStatus_status_before_error
          [of initialState "''x''" "''y''" status_and_error_agent_state]
  by (simp add: status_and_error_state_def status_and_error_agent_state_def initialState_def)

text \<open>
  C3, as the specification states it, fails: with a non-empty error and a non-empty
  status, \<^verbatim>\<open>renderStatus\<close> shows the status and not the error, and the chat state
  render shows the status followed by the error.
\<close>

theorem status_shown_while_error_set_counterexample:
  "truthy (error status_and_error_state)
   \<and> renderStatus status_and_error_state = Some (StatusView ''Analyzing repository'')
   \<and> truthy (agent_error status_and_error_agent_state)
   \<and> coagent_state_render status_and_error_agent_state
       = [StatusView ''Analyzing repository'', ErrorView ''GitHub fetch failed'']"
  by (simp add: renderStatus_def coagent_state_render_def status_and_error_state_def
        status_and_error_agent_state_def initialState_def)

subsection \<open>C4: the two outcomes of the confirmation gate\<close>

text \<open>
  C4. \<^verbatim>\<open>confirm_content\<close> is registered with an empty parameter list; whatever the
  human does on whatever element of its render, every value handed to \<^verbatim>\<open>respond\<close> is
  \<^verbatim>\<open>"CONFIRM"\<close> or \<^verbatim>\<open>"CANCEL"\<close>; while the gate is executing, Edit More responds
  \<^verbatim>\<open>"CANCEL"\<close>, Save and Publish responds \<^verbatim>\<open>"CONFIRM"\<close> and leaves the confirmation flag
  set; and the sequencer, on \<^verbatim>\<open>"CANCEL"\<close>, stays at the same gate, where \<^verbatim>\<open>"CONFIRM"\<close>
  moves past it.
\<close>

theorem confirm_content_sentinels:
  "action_name (DevRelPublisher_actions ! 3) = ''confirm_content''
   \<and> parameters (DevRelPublisher_actions ! 3) = []
   \<and> renderAndWaitForResponse (DevRelPublisher_actions ! 3) = confirm_content_render
   \<and> (\<forall>e \<in> set (confirm_content_render p s). \<forall>ev.
         set (responses (fire e ev)) \<subseteq> {JStr ''CONFIRM'', JStr ''CANCEL''})
   \<and> (gate_status p = ''executing'' \<and> respond p \<longrightarrow>
         responses (fire (confirm_content_render p s ! 11) Click) = [JStr ''CANCEL'']
         \<and> responses (fire (confirm_content_render p s ! 12) Click) = [JStr ''CONFIRM'']
         \<and> confirmationFlag (run_effects c (fire (confirm_content_render p s ! 12) Click)))
   \<and> sequencer_resolve 3 (JStr ''CANCEL'') = 3
   \<and> sequencer_resolve 3 (JStr ''CONFIRM'') = 4"
proof -
  have reg: "action_name (DevRelPublisher_actions ! 3) = ''confirm_content''
      \<and> parameters (DevRelPublisher_actions ! 3) = []
      \<and> renderAndWaitForResponse (DevRelPublisher_actions ! 3) = confirm_content_render"
    by (simp add: DevRelPublisher_actions_def)
  have sent: "\<forall>e \<in> set (confirm_content_render p s). \<forall>ev.
         set (responses (fire e ev)) \<subseteq> {JStr ''CONFIRM'', JStr ''CANCEL''}"
    using confirm_content_responses by blast
  have btn: "gate_status p = ''executing'' \<and> respond p \<longrightarrow>
         responses (fire (confirm_content_render p s ! 11) Click) = [JStr ''CANCEL'']
         \<and> responses (fire (confirm_content_render p s ! 12) Click) = [JStr ''CONFIRM'']
         \<and> confirmationFlag (run_effects c (fire (confirm_content_render p s ! 12) Click))"
    unfolding save_and_publish_click edit_more_click
    by (simp add: responses_respond_with run_effects_respond_with confirmationFlag_def
          metadata_at_confirmed)
  have seq: "sequencer_resolve 3 (JStr ''CANCEL'') = 3 \<and> sequencer_resolve 3 (JStr ''CONFIRM'') = 4"
    by (simp add: sequencer_resolve_def DevRelPublisher_actions_def)
  from reg sent btn seq show ?thesis by blast
qed

theorem confirm_content_sentinels_witness:
  "responses (fire (confirm_content_render executing_props initialState ! 11) Click) = [JStr ''CANCEL'']
   \<and> responses (fire (confirm_content_render executing_props initialState ! 12) Click) = [JStr ''CONFIRM'']
   \<and> \<not> confirmationFlag initialState
   \<and> confirmationFlag (run_effects initialState
        (fire (confirm_content_render executing_props initialState ! 12) Click))
   \<and> set (responses (fire (confirm_content_render executing_props initialState ! 2) (Change ''blog'')))
       \<subseteq> {JStr ''CONFIRM'', JStr ''CANCEL''}"
proof -
  have ex: "gate_status executing_props = ''executing'' \<and> respond executing_props"
    by (simp add: executing_props_def)
  have el: "confirm_content_render executing_props initialState ! 2
              \<in> set (confirm_content_render executing_props initialState)"
    by (rule nth_mem) (simp add: confirm_content_render_def)
  have nf: "\<not> confirmationFlag initialState"
    by (simp add: confirmationFlag_def metadata_at_def initialState_def)
  from confirm_content_sentinels[of executing_props initialState initialState] ex el nf
  show ?thesis by blast
qed

subsection \<open>C5: the repository URL\<close>

text \<open>
  C5, as the code has it. Typing \<open>v\<close> into the input submits the rendered state with
  \<^verbatim>\<open>repo_url\<close> replaced by \<open>v\<close>, so the document's \<^verbatim>\<open>repo_url\<close> is then \<open>v\<close>, character
  for character; the Submit button rendered from that document responds with exactly
  \<open>v\<close> while the gate is executing and \<^verbatim>\<open>respond\<close> is defined, and does nothing when
  the gate is not executing. This holds for every \<open>v\<close>, the empty string included: the
  gate does not check that the string is non-empty.
\<close>

theorem set_github_repo_responds_entered_url:
  "fire (set_github_repo_render p s ! 1) (Change v) = [SetState (s\<lparr>repo_url := v\<rparr>)]
   \<and> repo_url (run_effects c (fire (set_github_repo_render p s ! 1) (Change v))) = v
   \<and> (gate_status p = ''executing'' \<and> respond p \<longrightarrow>
        fire (set_github_repo_render p (s\<lparr>repo_url := v\<rparr>) ! 2) Click = [Respond (JStr v)])
   \<and> (gate_status p \<noteq> ''executing'' \<longrightarrow>
        fire (set_github_repo_render p (s\<lparr>repo_url := v\<rparr>) ! 2) Click = [])"
  by (simp add: set_github_repo_render_def respond_with_def)

theorem set_github_repo_responds_entered_url_witness:
  "fire (set_github_repo_render executing_props initialState ! 1)
        (Change ''https://github.com/acme/widget'')
     = [SetState (initialState\<lparr>repo_url := ''https://github.com/acme/widget''\<rparr>)]
   \<and> fire (set_github_repo_render executing_props
             (initialState\<lparr>repo_url := ''https://github.com/acme/widget''\<rparr>) ! 2) Click
     = [Respond (JStr ''https://github.com/acme/widget'')]
   \<and> fire (set_github_repo_render complete_props
             (initialState\<lparr>repo_url := ''https://github.com/acme/widget''\<rparr>) ! 2) Click = []"
  using set_github_repo_responds_entered_url
          [of executing_props initialState "''https://github.com/acme/widget''" initialState]
        set_github_repo_responds_entered_url
          [of complete_props initialState "''https://github.com/acme/widget''" initialState]
  by (simp add: executing_props_def complete_props_def)

text \<open>
  C5, as the specification states it, fails: on the initial state, whose \<^verbatim>\<open>repo_url\<close> is
  empty, the Submit button of an executing gate responds with the empty string.
\<close>

theorem set_github_repo_empty_url_counterexample:
  "repo_url initialState = ''''
   \<and> fire (set_github_repo_render executing_props initialState ! 2) Click = [Respond (JStr '''')]"
  by (simp add: set_github_repo_render_def respond_with_def executing_props_def initialState_def)

subsection \<open>C6: every update is a whole snapshot\<close>

text \<open>
  C6. Each of the seven edit handlers (repository URL, start date, and the channel,
  title, summary, content and type of the content form) makes exactly one call
  \<^verbatim>\<open>setState(snapshot)\<close> in which the snapshot is the rendered state with the edited field
  replaced by the new value and nothing else changed. More generally every snapshot
  submitted by any human event on any element of any of the four gates is the rendered
  state with a single field replaced, and the document after the event is either the
  document before it or that snapshot as a whole.
\<close>

theorem edit_handlers_submit_full_snapshot:
  "fire (set_github_repo_render p s ! 1) (Change v) = [SetState (s\<lparr>repo_url := v\<rparr>)]
   \<and> fire (set_date_range_render p s ! 2) (Change v) = [SetState (s\<lparr>start_date := v\<rparr>)]
   \<and> (v \<in> set ['''', ''blog'', ''twitter'', ''linkedin'', ''github''] \<longrightarrow>
        fire (confirm_content_render p s ! 2) (Change v)
          = [SetState (s\<lparr>content_record := (content_record s)\<lparr>channel := v\<rparr>\<rparr>)])
   \<and> fire (confirm_content_render p s ! 4) (Change v)
          = [SetState (s\<lparr>content_record := (content_record s)\<lparr>title := v\<rparr>\<rparr>)]
   \<and> fire (confirm_content_render p s ! 6) (Change v)
          = [SetState (s\<lparr>content_record := (content_record s)\<lparr>summary := v\<rparr>\<rparr>)]
   \<and> fire (confirm_content_render p s ! 8) (Change v)
          = [SetState (s\<lparr>content_record := (content_record s)\<lparr>content := v\<rparr>\<rparr>)]
   \<and> (v \<in> set ['''', ''blog_post'', ''code_example'', ''social_media''] \<longrightarrow>
        fire (confirm_content_render p s ! 10) (Change v)
          = [SetState (s\<lparr>content_record := (content_record s)\<lparr>type := v\<rparr>\<rparr>)])
   \<and> (\<forall>s'. SetState s' \<in> set (event_effects s h) \<longrightarrow>
          (\<exists>x. s' = s\<lparr>repo_url := x\<rparr>)
        \<or> (\<exists>x. s' = s\<lparr>start_date := x\<rparr>)
        \<or> (\<exists>x. s' = s\<lparr>selected_topic := Some x\<rparr>)
        \<or> (\<exists>x. s' = s\<lparr>content_record := (content_record s)\<lparr>channel := x\<rparr>\<rparr>)
        \<or> (\<exists>x. s' = s\<lparr>content_record := (content_record s)\<lparr>title := x\<rparr>\<rparr>)
        \<or> (\<exists>x. s' = s\<lparr>content_record := (content_record s)\<lparr>summary := x\<rparr>\<rparr>)
        \<or> (\<exists>x. s' = s\<lparr>content_record := (content_record s)\<lparr>content := x\<rparr>\<rparr>)
        \<or> (\<exists>x. s' = s\<lparr>content_record := (content_record s)\<lparr>type := x\<rparr>\<rparr>)
        \<or> s' = s\<lparr>copilotkit := Some (confirmed_copilotkit (copilotkit s))\<rparr>)
   \<and> (human_step s h = s \<or> SetState (human_step s h) \<in> set (event_effects s h))"
proof -
  have repo: "fire (set_github_repo_render p s ! 1) (Change v) = [SetState (s\<lparr>repo_url := v\<rparr>)]"
    by (simp add: set_github_repo_render_def)
  have date: "fire (set_date_range_render p s ! 2) (Change v) = [SetState (s\<lparr>start_date := v\<rparr>)]"
    by (simp add: set_date_range_render_def)
  have form: "(v \<in> set ['''', ''blog'', ''twitter'', ''linkedin'', ''github''] \<longrightarrow>
        fire (confirm_content_render p s ! 2) (Change v)
          = [SetState (s\<lparr>content_record := (content_record s)\<lparr>channel := v\<rparr>\<rparr>)])
   \<and> fire (confirm_content_render p s ! 4) (Change v)
          = [SetState (s\<lparr>content_record := (content_record s)\<lparr>title := v\<rparr>\<rparr>)]
   \<and> fire (confirm_content_render p s ! 6) (Change v)
          = [SetState (s\<lparr>content_record := (content_record s)\<lparr>summary := v\<rparr>\<rparr>)]
   \<and> fire (confirm_content_render p s ! 8) (Change v)
          = [SetState (s\<lparr>content_record := (content_record s)\<lparr>content := v\<rparr>\<rparr>)]
   \<and> (v \<in> set ['''', ''blog_post'', ''code_example'', ''social_media''] \<longrightarrow>
        fire (confirm_content_render p s ! 10) (Change v)
          = [SetState (s\<lparr>content_record := (content_record s)\<lparr>type := v\<rparr>\<rparr>)])"
    by (simp add: confirm_content_render_def)
  have every: "(\<exists>x. s' = s\<lparr>repo_url := x\<rparr>)
        \<or> (\<exists>x. s' = s\<lparr>start_date := x\<rparr>)
        \<or> (\<exists>x. s' = s\<lparr>selected_topic := Some x\<rparr>)
        \<or> (\<exists>x. s' = s\<lparr>content_record := (content_record s)\<lparr>channel := x\<rparr>\<rparr>)
        \<or> (\<exists>x. s' = s\<lparr>content_record := (content_record s)\<lparr>title := x\<rparr>\<rparr>)
        \<or> (\<exists>x. s' = s\<lparr>content_record := (content_record s)\<lparr>summary := x\<rparr>\<rparr>)
        \<or> (\<exists>x. s' = s\<lparr>content_record := (content_record s)\<lparr>content := x\<rparr>\<rparr>)
        \<or> (\<exists>x. s' = s\<lparr>content_record := (content_record s)\<lparr>type := x\<rparr>\<rparr>)
        \<or> s' = s\<lparr>copilotkit := Some (confirmed_copilotkit (copilotkit s))\<rparr>"
    if "SetState s' \<in> set (event_effects s h)" for s'
    using event_effects_cases[OF that] by blast
  from repo date form every human_step_cases[of s h] show ?thesis by blast
qed

theorem edit_handlers_submit_full_snapshot_witness:
  "fire (confirm_content_render executing_props two_topics_state ! 2) (Change ''blog'')
     = [SetState (two_topics_state\<lparr>content_record :=
                    (content_record two_topics_state)\<lparr>channel := ''blog''\<rparr>\<rparr>)]
   \<and> fire (confirm_content_render executing_props two_topics_state ! 10) (Change ''blog_post'')
     = [SetState (two_topics_state\<lparr>content_record :=
                    (content_record two_topics_state)\<lparr>type := ''blog_post''\<rparr>\<rparr>)]
   \<and> event_effects two_topics_state
        \<lparr> on_gate = 0, with_props = executing_props, on_elem = 1, event_of = Change ''acme/widget'' \<rparr>
     = [SetState (two_topics_state\<lparr>repo_url := ''acme/widget''\<rparr>)]
   \<and> topics (human_step two_topics_state
        \<lparr> on_gate = 0, with_props = executing_props, on_elem = 1, event_of = Change ''acme/widget'' \<rparr>)
     = [topic_T0, topic_T1]
   \<and> repo_url (human_step two_topics_state
        \<lparr> on_gate = 0, with_props = executing_props, on_elem = 1, event_of = Change ''acme/widget'' \<rparr>)
     = ''acme/widget''"
proof -
  let ?h = "\<lparr> on_gate = 0, with_props = executing_props, on_elem = 1,
              event_of = Change ''acme/widget'' \<rparr>"
  have ev: "event_effects two_topics_state ?h
              = [SetState (two_topics_state\<lparr>repo_url := ''acme/widget''\<rparr>)]"
    by (simp add: event_effects_def DevRelPublisher_actions_def set_github_repo_render_def)
  have st: "human_step two_topics_state ?h = two_topics_state\<lparr>repo_url := ''acme/widget''\<rparr>"
    unfolding human_step_def ev by simp
  have tp: "topics two_topics_state = [topic_T0, topic_T1]"
    by (simp add: two_topics_state_def)
  from edit_handlers_submit_full_snapshot[of executing_props two_topics_state "''blog''" ?h]
       edit_handlers_submit_full_snapshot[of executing_props two_topics_state "''blog_post''" ?h]
       ev st tp
  show ?thesis by simp
qed

subsection \<open>C7: the registry\<close>

text \<open>
  C7. The component registers exactly four gated actions, in this order, with these
  names and declared parameters: \<^verbatim>\<open>set_github_repo\<close> with the single required string
  parameter \<^verbatim>\<open>repo_url\<close>, \<^verbatim>\<open>set_date_range\<close> with the single required string parameter
  \<^verbatim>\<open>start_date\<close>, \<^verbatim>\<open>select_topic\<close> with the single required number parameter
  \<^verbatim>\<open>topic_index\<close>, and \<^verbatim>\<open>confirm_content\<close> with no parameter.
\<close>

theorem registry_four_gated_actions:
  "map (\<lambda>a. (action_name a, map (\<lambda>q. (param_name q, param_type q, required q)) (parameters a)))
       DevRelPublisher_actions
   = [ (''set_github_repo'', [(''repo_url'', ''string'', True)]),
       (''set_date_range'', [(''start_date'', ''string'', True)]),
       (''select_topic'', [(''topic_index'', ''number'', True)]),
       (''confirm_content'', []) ]"
  by (simp add: DevRelPublisher_actions_def)

subsection \<open>C8: channel and type stay within the offered values\<close>

text \<open>
  C8. If the channel of the content record is empty or one of blog, twitter, linkedin,
  github, and its type is empty or one of blog_post, code_example, social_media, then
  the same holds after every sequence of human events on the elements of the four gates,
  the content form among them. The initial state is such a state.
\<close>

theorem content_form_keeps_channel_and_type_closed:
  assumes "channel (content_record s) \<in> set ['''', ''blog'', ''twitter'', ''linkedin'', ''github'']"
    and "type (content_record s) \<in> set ['''', ''blog_post'', ''code_example'', ''social_media'']"
  shows "channel (content_record (human_run s hs))
           \<in> set ['''', ''blog'', ''twitter'', ''linkedin'', ''github'']
       \<and> type (content_record (human_run s hs))
           \<in> set ['''', ''blog_post'', ''code_example'', ''social_media'']"
  using assms
proof (induction hs arbitrary: s)
  case Nil
  then show ?case by (simp add: human_run_Nil)
next
  case (Cons h hs)
  from human_step_keeps_closed[OF Cons.prems, of h]
  have "channel (content_record (human_step s h))
           \<in> set ['''', ''blog'', ''twitter'', ''linkedin'', ''github'']"
    and "type (content_record (human_step s h))
           \<in> set ['''', ''blog_post'', ''code_example'', ''social_media'']"
    by blast+
  from Cons.IH[OF this] show ?case by (simp only: human_run_Cons)
qed

theorem content_form_keeps_channel_and_type_closed_witness:
  "channel (content_record initialState) \<in> set ['''', ''blog'', ''twitter'', ''linkedin'', ''github'']
   \<and> type (content_record initialState) \<in> set ['''', ''blog_post'', ''code_example'', ''social_media'']
   \<and> channel (content_record (human_run initialState form_edits)) = ''twitter''
   \<and> type (content_record (human_run initialState form_edits)) = ''social_media''
   \<and> channel (content_record (human_run initialState form_edits))
        \<in> set ['''', ''blog'', ''twitter'', ''linkedin'', ''github'']
   \<and> type (content_record (human_run initialState form_edits))
        \<in> set ['''', ''blog_post'', ''code_example'', ''social_media'']"
proof -
  have c0: "channel (content_record initialState)
              \<in> set ['''', ''blog'', ''twitter'', ''linkedin'', ''github'']"
    and t0: "type (content_record initialState)
              \<in> set ['''', ''blog_post'', ''code_example'', ''social_media'']"
    by (simp_all add: initialState_def)
  from content_form_keeps_channel_and_type_closed[OF c0 t0, of form_edits] c0 t0
  show ?thesis by (simp add: form_edits_run)
qed

subsection \<open>C9: no topics, no response\<close>

text \<open>
  C9. When the rendered state has no topics, the render of \<^verbatim>\<open>select_topic\<close> is two lines
  of text and the waiting message; no event on any of its elements calls \<^verbatim>\<open>setState\<close> or
  \<^verbatim>\<open>respond\<close>, so no human event on that gate has any effect; and if no topic is selected,
  then after every sequence of human events on the four gates still no topic is selected
  and the topics list is still empty.
\<close>

theorem select_topic_without_topics_never_responds:
  assumes "topics s = []"
  shows "select_topic_render p s
           = [ Static ''Select Content Topic'', Static ''Choose a topic to generate content for'',
               Static ''No topics generated yet. Please wait...'' ]
       \<and> (\<forall>e \<in> set (select_topic_render p s). \<forall>ev. fire e ev = [])
       \<and> (on_gate h = 2 \<longrightarrow> event_effects s h = [])
       \<and> (selected_topic s = None \<longrightarrow>
            selected_topic (human_run s hs) = None \<and> topics (human_run s hs) = [])"
proof -
  have r: "select_topic_render p s
           = [ Static ''Select Content Topic'', Static ''Choose a topic to generate content for'',
               Static ''No topics generated yet. Please wait...'' ]" for p
    using assms by (simp add: select_topic_render_def)
  have f: "\<forall>e \<in> set (select_topic_render p s). \<forall>ev. fire e ev = []" for p
    unfolding r by simp
  have g: "on_gate h = 2 \<longrightarrow> event_effects s h = []"
  proof
    assume "on_gate h = 2"
    then have "event_effects s h
         = (if on_elem h < length (select_topic_render (with_props h) s)
            then fire (select_topic_render (with_props h) s ! on_elem h) (event_of h) else [])"
      by (simp add: event_effects_def DevRelPublisher_actions_def)
    also have "\<dots> = []"
    proof (cases "on_elem h < length (select_topic_render (with_props h) s)")
      case True
      from nth_mem[OF True] f show ?thesis by simp
    next
      case False
      then show ?thesis by simp
    qed
    finally show "event_effects s h = []" .
  qed
  have run: "topics (human_run s hs) = [] \<and> selected_topic (human_run s hs) = selected_topic s"
    using assms
  proof (induction hs arbitrary: s)
    case Nil
    then show ?case by (simp add: human_run_Nil)
  next
    case (Cons h hs)
    from human_step_without_topics[OF Cons.prems, of h]
    have t: "topics (human_step s h) = []"
      and k: "selected_topic (human_step s h) = selected_topic s" by blast+
    from Cons.IH[OF t] k show ?case by (simp only: human_run_Cons)
  qed
  from r f g run show ?thesis by simp
qed

theorem select_topic_without_topics_never_responds_witness:
  "topics initialState = []
   \<and> selected_topic initialState = None
   \<and> select_topic_render executing_props initialState
       = [ Static ''Select Content Topic'', Static ''Choose a topic to generate content for'',
           Static ''No topics generated yet. Please wait...'' ]
   \<and> fire (select_topic_render executing_props initialState ! 2) Click = []
   \<and> event_effects initialState
        \<lparr> on_gate = 2, with_props = executing_props, on_elem = 2, event_of = Click \<rparr> = []
   \<and> selected_topic (human_run initialState waiting_events) = None
   \<and> topics (human_run initialState waiting_events) = []"
proof -
  have t: "topics initialState = []" and n: "selected_topic initialState = None"
    by (simp_all add: initialState_def)
  from select_topic_without_topics_never_responds
         [OF t, of executing_props
            "\<lparr> on_gate = 2, with_props = executing_props, on_elem = 2, event_of = Click \<rparr>"
            waiting_events]
       t n
  show ?thesis by simp
qed

subsection \<open>C10: what the two buttons of the confirmation gate change\<close>

text \<open>
  C10, as the code has it. A click on Edit More calls \<^verbatim>\<open>respond("CANCEL")\<close> when the gate
  is executing and \<^verbatim>\<open>respond\<close> is defined, and nothing otherwise; whatever the document
  holds, it is left as it is. A click on Save and Publish does nothing when the gate is
  not executing; when it is, it submits one snapshot and then responds \<^verbatim>\<open>"CONFIRM"\<close>
  when \<^verbatim>\<open>respond\<close> is defined, and whatever the document held it is then that snapshot.
  The snapshot differs from the state the gate was rendered from in the \<^verbatim>\<open>copilotkit\<close>
  field only, so its content record is the rendered one; in that field
  \<^verbatim>\<open>metadata.confirmed\<close> is \<^verbatim>\<open>true\<close>, every other metadata key has the value it had in
  the rendered state, and \<^verbatim>\<open>actions\<close> is the rendered one.
\<close>

theorem confirm_content_buttons_frame:
  "fire (confirm_content_render p s ! 11) Click
     = (if gate_status p = ''executing'' \<and> respond p then [Respond (JStr ''CANCEL'')] else [])
   \<and> run_effects c (fire (confirm_content_render p s ! 11) Click) = c
   \<and> (gate_status p \<noteq> ''executing'' \<longrightarrow>
        run_effects c (fire (confirm_content_render p s ! 12) Click) = c)
   \<and> (gate_status p = ''executing'' \<longrightarrow>
        fire (confirm_content_render p s ! 12) Click
          = SetState (run_effects c (fire (confirm_content_render p s ! 12) Click))
            # (if respond p then [Respond (JStr ''CONFIRM'')] else [])
        \<and> (run_effects c (fire (confirm_content_render p s ! 12) Click))\<lparr>copilotkit := copilotkit s\<rparr> = s
        \<and> content_record (run_effects c (fire (confirm_content_render p s ! 12) Click)) = content_record s
        \<and> metadata_at (run_effects c (fire (confirm_content_render p s ! 12) Click)) ''confirmed''
            = Some (JBool True)
        \<and> (\<forall>k. k \<noteq> ''confirmed'' \<longrightarrow>
              metadata_at (run_effects c (fire (confirm_content_render p s ! 12) Click)) k
                = metadata_at s k)
        \<and> actions_of (run_effects c (fire (confirm_content_render p s ! 12) Click)) = actions_of s)"
  unfolding save_and_publish_click edit_more_click
  by (simp add: respond_with_def metadata_at_confirmed actions_of_confirmed)

theorem confirm_content_buttons_frame_witness:
  "fire (confirm_content_render executing_props drafted_state ! 11) Click = [Respond (JStr ''CANCEL'')]
   \<and> run_effects retitled_state (fire (confirm_content_render executing_props drafted_state ! 11) Click)
       = retitled_state
   \<and> run_effects retitled_state (fire (confirm_content_render complete_props drafted_state ! 12) Click)
       = retitled_state
   \<and> metadata_at drafted_state ''confirmed'' = None
   \<and> metadata_at (run_effects retitled_state
        (fire (confirm_content_render executing_props drafted_state ! 12) Click)) ''confirmed''
       = Some (JBool True)
   \<and> metadata_at (run_effects retitled_state
        (fire (confirm_content_render executing_props drafted_state ! 12) Click)) ''thread''
       = Some (JStr ''t-1'')
   \<and> actions_of (run_effects retitled_state
        (fire (confirm_content_render executing_props drafted_state ! 12) Click))
       = Some [JStr ''confirm_content'']
   \<and> content_record (run_effects retitled_state
        (fire (confirm_content_render executing_props drafted_state ! 12) Click))
       = \<lparr> channel = ''blog'', title = ''Draft'', summary = ''What changed'',
           content = ''Body'', type = ''blog_post'' \<rparr>
   \<and> repo_url (run_effects retitled_state
        (fire (confirm_content_render executing_props drafted_state ! 12) Click))
       = ''https://github.com/acme/widget''"
proof -
  have ex: "gate_status executing_props = ''executing''" "respond executing_props"
    and co: "gate_status complete_props \<noteq> ''executing''"
    by (simp_all add: executing_props_def complete_props_def)
  have md: "metadata_at drafted_state ''confirmed'' = None"
    "metadata_at drafted_state ''thread'' = Some (JStr ''t-1'')"
    by (simp_all add: metadata_at_def drafted_state_def)
  have ac: "actions_of drafted_state = Some [JStr ''confirm_content'']"
    by (simp add: actions_of_def drafted_state_def)
  have cr: "content_record drafted_state
              = \<lparr> channel = ''blog'', title = ''Draft'', summary = ''What changed'',
                  content = ''Body'', type = ''blog_post'' \<rparr>"
    and ru: "repo_url drafted_state = ''https://github.com/acme/widget''"
    by (simp_all add: drafted_state_def)
  let ?r = "run_effects retitled_state
              (fire (confirm_content_render executing_props drafted_state ! 12) Click)"
  from confirm_content_buttons_frame[of executing_props drafted_state retitled_state] ex
  have fr: "?r\<lparr>copilotkit := copilotkit drafted_state\<rparr> = drafted_state"
    and rest: "fire (confirm_content_render executing_props drafted_state ! 11) Click
                 = [Respond (JStr ''CANCEL'')]"
      "run_effects retitled_state
         (fire (confirm_content_render executing_props drafted_state ! 11) Click) = retitled_state"
      "content_record ?r = content_record drafted_state"
      "metadata_at ?r ''confirmed'' = Some (JBool True)"
      "metadata_at ?r ''thread'' = metadata_at drafted_state ''thread''"
      "actions_of ?r = actions_of drafted_state"
    by simp_all
  from fr have "repo_url (?r\<lparr>copilotkit := copilotkit drafted_state\<rparr>) = repo_url drafted_state"
    by (rule arg_cong)
  then have rr: "repo_url ?r = repo_url drafted_state" by simp
  from confirm_content_buttons_frame[of complete_props drafted_state retitled_state] co
  have nx: "run_effects retitled_state
              (fire (confirm_content_render complete_props drafted_state ! 12) Click) = retitled_state"
    by blast
  from rest rr nx md ac cr ru show ?thesis by simp
qed

text \<open>
  C10, as the specification states it, fails. The gate is rendered from the drafted
  state; the title of the record is then changed, so the document holds the new title;
  the click on Save and Publish of that render responds \<^verbatim>\<open>"CONFIRM"\<close> and puts the old
  title back: the content record of the document is not left unchanged.
\<close>

theorem save_and_publish_stale_render_counterexample:
  "title (content_record retitled_state) = ''Release notes''
   \<and> responses (fire (confirm_content_render executing_props drafted_state ! 12) Click)
       = [JStr ''CONFIRM'']
   \<and> title (content_record (run_effects retitled_state
        (fire (confirm_content_render executing_props drafted_state ! 12) Click))) = ''Draft''"
  by (simp add: confirm_content_render_def respond_with_def executing_props_def
        retitled_state_def drafted_state_def)

end
